theory Spec2Isabelle
  imports Complex_Main
begin

section \<open>Data model of \<open>pbrSubSurfaceConfiguration.ts\<close>\<close>

text \<open>
  A JavaScript \<open>number\<close> is modelled by a real; the configuration only stores numbers, and
  the two places where the source computes with them (in \<open>bindForSubMesh\<close>) are kept
  symbolic, see \<open>uniform_arg\<close> below.
\<close>

type_synonym number = real

text \<open>
  The part of a \<open>BaseTexture\<close> that this file reads. A texture is an object of the engine;
  \<open>uniqueId\<close> stands for its identity, the method results (\<open>isReadyOrNotBlocking()\<close>,
  \<open>getReflectionTextureMatrix()\<close>, \<open>getSize().width\<close>) are fields of the snapshot.
  \<open>tex_depth\<close> is the optional \<open>depth\<close> member read through \<open>any\<close>.
\<close>

datatype BaseTexture = BaseTexture
  (uniqueId: nat)
  (isReadyOrNotBlocking: bool)
  (isCube: bool)
  (gammaSpace: bool)
  (isRGBD: bool)
  (invertZ: bool)
  (lodLevelInAlpha: bool)
  (isRenderTarget: bool)
  (coordinatesIndex: number)
  (level: number)
  (tex_depth: "number option")
  (getReflectionTextureMatrix: "number list")
  (getSize_width: number)
  (lodGenerationScale: number)
  (lodGenerationOffset: number)
  (lodTextureLow: "BaseTexture option")
  (lodTextureMid: "BaseTexture option")
  (lodTextureHigh: "BaseTexture option")

record Color3 =
  r :: number
  g :: number
  b :: number

text \<open>
  The members of \<open>Scene\<close> and of the static class \<open>MaterialFlags\<close> that are read. The
  rest of a scene is the extension part of the record.
\<close>

record Scene =
  texturesEnabled :: bool
  environmentTexture :: "BaseTexture option"

record MaterialFlags =
  ThicknessTextureEnabled :: bool
  RefractionTextureEnabled :: bool

text \<open>
  The interface \<open>IMaterialSubSurfaceDefines\<close>. The object handed in by the material has
  more members than the interface lists; they live in the extension part of the record,
  so the functions below are stated on the record scheme.
\<close>

record IMaterialSubSurfaceDefines =
  SUBSURFACE :: bool
  SS_REFRACTION :: bool
  SS_TRANSLUCENCY :: bool
  SS_SCATERRING :: bool
  SS_THICKNESSANDMASK_TEXTURE :: bool
  SS_THICKNESSANDMASK_TEXTUREDIRECTUV :: number
  SS_REFRACTIONMAP_3D :: bool
  SS_REFRACTIONMAP_OPPOSITEZ :: bool
  SS_LODINREFRACTIONALPHA :: bool
  SS_GAMMAREFRACTION :: bool
  SS_RGBDREFRACTION :: bool
  SS_LINKREFRACTIONTOTRANSPARENCY :: bool
  SS_MASK_FROM_THICKNESS_TEXTURE :: bool
  areTexturesDirty :: bool

text \<open>
  The class \<open>PBRSubSurfaceConfiguration\<close>. A private member \<open>_x\<close> of the source is the
  field \<open>priv_x\<close>; the public members generated by \<open>expandToProperty\<close> have no storage
  of their own and are the getters and setters further down. \<open>dirtyCalls\<close> counts the
  invocations of the constructor's callback \<open>_internalMarkAllSubMeshesAsTexturesDirty\<close>.
\<close>

record PBRSubSurfaceConfiguration =
  priv_isRefractionEnabled :: bool
  priv_isTranslucencyEnabled :: bool
  priv_isScatteringEnabled :: bool
  refractionIntensity :: number
  translucencyIntensity :: number
  scatteringIntensity :: number
  priv_thicknessTexture :: "BaseTexture option"
  priv_refractionTexture :: "BaseTexture option"
  priv_indexOfRefraction :: number
  priv_invertRefractionY :: bool
  priv_linkRefractionWithTransparency :: bool
  minimumThickness :: number
  maximumThickness :: number
  tintColor :: Color3
  tintColorAtDistance :: number
  diffusionDistance :: Color3
  priv_useMaskFromThicknessTexture :: bool
  dirtyCalls :: nat

section \<open>Queries\<close>

text \<open>\<open>_getRefractionTexture\<close>: an object is truthy, \<open>null\<close> is not.\<close>

definition getRefractionTexture ::
  "PBRSubSurfaceConfiguration \<Rightarrow> 's Scene_scheme \<Rightarrow> BaseTexture option" where
  "getRefractionTexture this scene =
     (if priv_refractionTexture this \<noteq> None then priv_refractionTexture this
      else if priv_isRefractionEnabled this then environmentTexture scene
      else None)"

text \<open>
  Modelled from the spec: the decorator \<open>expandToProperty\<close> is declared in
  \<open>Misc/decorators\<close>, which is not among the sources. The public member \<open>p\<close> it is put
  on is a property over the private member \<open>_p\<close>; these are the getters of the two
  properties that \<open>disableAlphaBlending\<close> is about.
\<close>

definition isRefractionEnabled :: "PBRSubSurfaceConfiguration \<Rightarrow> bool" where
  "isRefractionEnabled this = priv_isRefractionEnabled this"

definition linkRefractionWithTransparency :: "PBRSubSurfaceConfiguration \<Rightarrow> bool" where
  "linkRefractionWithTransparency this = priv_linkRefractionWithTransparency this"

text \<open>\<open>disableAlphaBlending\<close> reads the property and the private member, as written.\<close>

definition disableAlphaBlending :: "PBRSubSurfaceConfiguration \<Rightarrow> bool" where
  "disableAlphaBlending this =
     (isRefractionEnabled this \<and> priv_linkRefractionWithTransparency this)"

text \<open>
  \<open>isReadyForSubMesh\<close>. Each \<open>return false\<close> of the source is a \<open>False\<close> branch; the
  refraction texture is looked at only when the thickness test did not return.
  \<open>MaterialFlags\<close> is a static class of the engine, so its two toggles are an argument.
\<close>

definition isReadyForSubMesh ::
  "MaterialFlags \<Rightarrow> PBRSubSurfaceConfiguration \<Rightarrow> 'a IMaterialSubSurfaceDefines_scheme
     \<Rightarrow> 's Scene_scheme \<Rightarrow> bool" where
  "isReadyForSubMesh flags this defines scene =
     (if areTexturesDirty defines then
        if texturesEnabled scene then
          if (case priv_thicknessTexture this of
                Some thicknessTexture \<Rightarrow>
                  ThicknessTextureEnabled flags \<and> \<not> isReadyOrNotBlocking thicknessTexture
              | None \<Rightarrow> False)
          then False
          else if (case getRefractionTexture this scene of
                     Some refractionTexture \<Rightarrow>
                       RefractionTextureEnabled flags
                       \<and> \<not> isReadyOrNotBlocking refractionTexture
                   | None \<Rightarrow> False)
          then False
          else True
        else True
      else True)"

section \<open>Deriving the shader defines\<close>

text \<open>
  \<open>MaterialHelper.PrepareDefinesForMergedUV(texture, defines, key)\<close> belongs to another
  file of the engine. It is an argument of the model: a function from the texture, the
  defines object and the key to the defines object it leaves behind.
\<close>

type_synonym 'a PrepareDefinesForMergedUV =
  "BaseTexture \<Rightarrow> 'a IMaterialSubSurfaceDefines_scheme \<Rightarrow> string
     \<Rightarrow> 'a IMaterialSubSurfaceDefines_scheme"

text \<open>
  \<open>prepareDefines\<close>. The method has no assignment to a member of \<open>this\<close>; the model
  returns the receiver next to the defines object so that this can be stated.
\<close>

definition prepareDefines ::
  "'a PrepareDefinesForMergedUV \<Rightarrow> MaterialFlags \<Rightarrow> PBRSubSurfaceConfiguration
     \<Rightarrow> 'a IMaterialSubSurfaceDefines_scheme \<Rightarrow> 's Scene_scheme
     \<Rightarrow> PBRSubSurfaceConfiguration \<times> 'a IMaterialSubSurfaceDefines_scheme" where
  "prepareDefines PrepareDefinesForMergedUV flags this defines scene =
     (if areTexturesDirty defines then
        let d1 = defines
              \<lparr>SUBSURFACE := False,
               SS_TRANSLUCENCY := priv_isTranslucencyEnabled this,
               SS_SCATERRING := priv_isScatteringEnabled this,
               SS_THICKNESSANDMASK_TEXTURE := False,
               SS_MASK_FROM_THICKNESS_TEXTURE := False,
               SS_REFRACTION := False,
               SS_REFRACTIONMAP_3D := False,
               SS_GAMMAREFRACTION := False,
               SS_RGBDREFRACTION := False,
               SS_REFRACTIONMAP_OPPOSITEZ := False,
               SS_LODINREFRACTIONALPHA := False,
               SS_LINKREFRACTIONTOTRANSPARENCY := False\<rparr>;
            d2 =
              (if priv_isRefractionEnabled this \<or> priv_isTranslucencyEnabled this
                  \<or> priv_isScatteringEnabled this
               then
                 let d = d1\<lparr>SUBSURFACE := True\<rparr>;
                     d' =
                       (if areTexturesDirty d then
                          if texturesEnabled scene then
                            (case priv_thicknessTexture this of
                               Some thicknessTexture \<Rightarrow>
                                 if ThicknessTextureEnabled flags
                                 then PrepareDefinesForMergedUV thicknessTexture d
                                        ''SS_THICKNESSANDMASK_TEXTURE''
                                 else d
                             | None \<Rightarrow> d)
                          else d
                        else d)
                 in d'\<lparr>SS_MASK_FROM_THICKNESS_TEXTURE :=
                         priv_useMaskFromThicknessTexture this\<rparr>
               else d1);
            d3 =
              (if priv_isRefractionEnabled this then
                 if texturesEnabled scene then
                   (case getRefractionTexture this scene of
                      Some refractionTexture \<Rightarrow>
                        if RefractionTextureEnabled flags then
                          d2\<lparr>SS_REFRACTION := True,
                             SS_REFRACTIONMAP_3D := isCube refractionTexture,
                             SS_GAMMAREFRACTION := gammaSpace refractionTexture,
                             SS_RGBDREFRACTION := isRGBD refractionTexture,
                             SS_REFRACTIONMAP_OPPOSITEZ := invertZ refractionTexture,
                             SS_LODINREFRACTIONALPHA := lodLevelInAlpha refractionTexture,
                             SS_LINKREFRACTIONTOTRANSPARENCY :=
                               priv_linkRefractionWithTransparency this\<rparr>
                        else d2
                    | None \<Rightarrow> d2)
                 else d2
               else d2)
        in (this, d3)
      else (this, defines))"

text \<open>
  The frame condition on the helper that the statements about \<open>SUBSURFACE\<close>,
  \<open>SS_TRANSLUCENCY\<close> and \<open>SS_SCATERRING\<close> need: called with the key of the thickness
  texture, it leaves these three members as they are.
\<close>

definition keepsEnableDefines :: "'a PrepareDefinesForMergedUV \<Rightarrow> bool" where
  "keepsEnableDefines PrepareDefinesForMergedUV \<longleftrightarrow>
     (\<forall>texture defines.
        SUBSURFACE (PrepareDefinesForMergedUV texture defines ''SS_THICKNESSANDMASK_TEXTURE'')
          = SUBSURFACE defines
        \<and> SS_TRANSLUCENCY
            (PrepareDefinesForMergedUV texture defines ''SS_THICKNESSANDMASK_TEXTURE'')
          = SS_TRANSLUCENCY defines
        \<and> SS_SCATERRING
            (PrepareDefinesForMergedUV texture defines ''SS_THICKNESSANDMASK_TEXTURE'')
          = SS_SCATERRING defines)"

section \<open>Binding and unbinding\<close>

text \<open>
  The arguments of the \<open>update...\<close> calls. The source forms two of them by floating-point
  arithmetic (\<open>maximumThickness - minimumThickness\<close> and \<open>1 / _indexOfRefraction\<close>); they
  are recorded as the operation on its operands, not evaluated.
\<close>

datatype uniform_arg =
  Lit number
  | Difference number number
  | Quotient number number

datatype uniform_value =
  Float2 uniform_arg uniform_arg
  | Float3 uniform_arg uniform_arg uniform_arg
  | Float4 uniform_arg uniform_arg uniform_arg uniform_arg
  | MatrixValue "number list"
  | Color3Value Color3

text \<open>
  The \<open>UniformBuffer\<close>: the two flags read by the gate, and the calls made on it, in
  order: \<open>uniformUpdates\<close> for \<open>updateFloat2\<close>, \<open>updateFloat3\<close>, \<open>updateFloat4\<close>,
  \<open>updateMatrix\<close> and \<open>updateColor3\<close>, \<open>textureBindings\<close> for \<open>setTexture\<close>.
\<close>

record UniformBuffer =
  useUbo :: bool
  isSync :: bool
  uniformUpdates :: "(string \<times> uniform_value) list"
  textureBindings :: "(string \<times> BaseTexture) list"

definition updateUniform ::
  "string \<Rightarrow> uniform_value \<Rightarrow> 'u UniformBuffer_scheme \<Rightarrow> 'u UniformBuffer_scheme" where
  "updateUniform name v uniformBuffer =
     uniformBuffer\<lparr>uniformUpdates := uniformUpdates uniformBuffer @ [(name, v)]\<rparr>"

definition setTexture ::
  "string \<Rightarrow> BaseTexture \<Rightarrow> 'u UniformBuffer_scheme \<Rightarrow> 'u UniformBuffer_scheme" where
  "setTexture name texture uniformBuffer =
     uniformBuffer\<lparr>textureBindings := textureBindings uniformBuffer @ [(name, texture)]\<rparr>"

text \<open>
  \<open>MaterialHelper.BindTextureMatrix(texture, uniformBuffer, key)\<close> is in another file of
  the engine and is an argument of the model.
\<close>

type_synonym 'u BindTextureMatrix =
  "BaseTexture \<Rightarrow> 'u UniformBuffer_scheme \<Rightarrow> string \<Rightarrow> 'u UniformBuffer_scheme"

text \<open>The JavaScript \<open>a || b\<close> on a nullable texture and a texture.\<close>

definition orElse :: "BaseTexture option \<Rightarrow> BaseTexture \<Rightarrow> BaseTexture" where
  "orElse x y = (case x of Some t \<Rightarrow> t | None \<Rightarrow> y)"

text \<open>
  The value of the local \<open>depth\<close>: 1 unless the texture is not a cube and has a truthy
  \<open>depth\<close> member (present and not zero).
\<close>

definition refractionDepth :: "BaseTexture \<Rightarrow> number" where
  "refractionDepth refractionTexture =
     (if \<not> isCube refractionTexture then
        (case tex_depth refractionTexture of
           Some d \<Rightarrow> if d \<noteq> 0 then d else 1
         | None \<Rightarrow> 1)
      else 1)"

text \<open>The block of \<open>bindForSubMesh\<close> behind the test on \<open>useUbo\<close>, \<open>isFrozen\<close>, \<open>isSync\<close>.\<close>

definition bindUniforms ::
  "'u BindTextureMatrix \<Rightarrow> MaterialFlags \<Rightarrow> PBRSubSurfaceConfiguration
     \<Rightarrow> BaseTexture option \<Rightarrow> 'u UniformBuffer_scheme \<Rightarrow> 'u UniformBuffer_scheme" where
  "bindUniforms BindTextureMatrix flags this refractionTexture uniformBuffer =
     (let u1 =
            (case priv_thicknessTexture this of
               Some thicknessTexture \<Rightarrow>
                 if ThicknessTextureEnabled flags then
                   BindTextureMatrix thicknessTexture
                     (updateUniform ''vThicknessInfos''
                        (Float2 (Lit (coordinatesIndex thicknessTexture))
                                (Lit (level thicknessTexture)))
                        uniformBuffer)
                     ''thickness''
                 else uniformBuffer
             | None \<Rightarrow> uniformBuffer);
          u2 = updateUniform ''vThicknessParam''
                 (Float2 (Lit (minimumThickness this))
                         (Difference (maximumThickness this) (minimumThickness this)))
                 u1;
          u3 =
            (case refractionTexture of
               Some rt \<Rightarrow>
                 if RefractionTextureEnabled flags then
                   updateUniform ''vRefractionMicrosurfaceInfos''
                     (Float3 (Lit (getSize_width rt)) (Lit (lodGenerationScale rt))
                             (Lit (lodGenerationOffset rt)))
                     (updateUniform ''vRefractionInfos''
                        (Float4 (Lit (level rt))
                                (Quotient 1 (priv_indexOfRefraction this))
                                (Lit (refractionDepth rt))
                                (Lit (if priv_invertRefractionY this then - 1 else 1)))
                        (updateUniform ''refractionMatrix''
                           (MatrixValue (getReflectionTextureMatrix rt)) u2))
                 else u2
             | None \<Rightarrow> u2);
          u4 = updateUniform ''vDiffusionDistance'' (Color3Value (diffusionDistance this)) u3;
          u5 = updateUniform ''vTintColor''
                 (Float4 (Lit (r (tintColor this))) (Lit (g (tintColor this)))
                         (Lit (b (tintColor this))) (Lit (tintColorAtDistance this)))
                 u4
      in updateUniform ''vSubSurfaceIntensity''
           (Float3 (Lit (refractionIntensity this)) (Lit (translucencyIntensity this))
                   (Lit (scatteringIntensity this)))
           u5)"

text \<open>The block of \<open>bindForSubMesh\<close> under the comment \<open>Textures\<close>.\<close>

definition bindTextures ::
  "MaterialFlags \<Rightarrow> PBRSubSurfaceConfiguration \<Rightarrow> BaseTexture option
     \<Rightarrow> 's Scene_scheme \<Rightarrow> bool
     \<Rightarrow> 'u UniformBuffer_scheme \<Rightarrow> 'u UniformBuffer_scheme" where
  "bindTextures flags this refractionTexture scene lodBasedMicrosurface uniformBuffer =
     (if texturesEnabled scene then
        let u1 =
              (case priv_thicknessTexture this of
                 Some thicknessTexture \<Rightarrow>
                   if ThicknessTextureEnabled flags
                   then setTexture ''thicknessSampler'' thicknessTexture uniformBuffer
                   else uniformBuffer
               | None \<Rightarrow> uniformBuffer)
        in (case refractionTexture of
              Some rt \<Rightarrow>
                if RefractionTextureEnabled flags then
                  if lodBasedMicrosurface then setTexture ''refractionSampler'' rt u1
                  else
                    setTexture ''refractionSamplerHigh'' (orElse (lodTextureHigh rt) rt)
                      (setTexture ''refractionSamplerLow'' (orElse (lodTextureLow rt) rt)
                         (setTexture ''refractionSampler'' (orElse (lodTextureMid rt) rt) u1))
                else u1
            | None \<Rightarrow> u1)
      else uniformBuffer)"

text \<open>\<open>bindForSubMesh\<close>; the parameter \<open>engine\<close> is not used by the body.\<close>

definition bindForSubMesh ::
  "'u BindTextureMatrix \<Rightarrow> MaterialFlags \<Rightarrow> PBRSubSurfaceConfiguration
     \<Rightarrow> 'u UniformBuffer_scheme \<Rightarrow> 's Scene_scheme \<Rightarrow> bool \<Rightarrow> bool
     \<Rightarrow> 'u UniformBuffer_scheme" where
  "bindForSubMesh BindTextureMatrix flags this uniformBuffer scene isFrozen
       lodBasedMicrosurface =
     (let refractionTexture = getRefractionTexture this scene;
          u =
            (if \<not> useUbo uniformBuffer \<or> \<not> isFrozen \<or> \<not> isSync uniformBuffer
             then bindUniforms BindTextureMatrix flags this refractionTexture uniformBuffer
             else uniformBuffer)
      in bindTextures flags this refractionTexture scene lodBasedMicrosurface u)"

text \<open>
  The \<open>Effect\<close> seen by \<open>unbind\<close>: the texture bound to each sampler name, \<open>None\<close> for
  \<open>null\<close>. \<open>activeEffect.setTexture(name, null)\<close> stores \<open>None\<close> under the name.
\<close>

record Effect =
  samplers :: "string \<Rightarrow> BaseTexture option"

definition unbind ::
  "PBRSubSurfaceConfiguration \<Rightarrow> 'e Effect_scheme \<Rightarrow> bool \<times> 'e Effect_scheme" where
  "unbind this activeEffect =
     (if (case priv_refractionTexture this of
            Some refractionTexture \<Rightarrow> isRenderTarget refractionTexture
          | None \<Rightarrow> False)
      then (True, activeEffect\<lparr>samplers := (samplers activeEffect)(''refractionSampler'' := None)\<rparr>)
      else (False, activeEffect))"

section \<open>Disposal\<close>

text \<open>
  \<open>dispose\<close>. The optional parameter is \<open>None\<close> when omitted, which is falsy. The result
  is the receiver, which the body does not assign to, and the textures on which
  \<open>dispose()\<close> was called, in order.
\<close>

definition dispose ::
  "PBRSubSurfaceConfiguration \<Rightarrow> bool option
     \<Rightarrow> PBRSubSurfaceConfiguration \<times> BaseTexture list" where
  "dispose this forceDisposeTextures =
     (if forceDisposeTextures = Some True then
        (this,
         (case priv_thicknessTexture this of Some t \<Rightarrow> [t] | None \<Rightarrow> [])
         @ (case priv_refractionTexture this of Some t \<Rightarrow> [t] | None \<Rightarrow> []))
      else (this, []))"

section \<open>Assignments to the public members\<close>

text \<open>\<open>_markAllSubMeshesAsTexturesDirty\<close>: one call of the constructor's callback.\<close>

definition markAllSubMeshesAsTexturesDirty ::
  "PBRSubSurfaceConfiguration \<Rightarrow> PBRSubSurfaceConfiguration" where
  "markAllSubMeshesAsTexturesDirty this = this\<lparr>dirtyCalls := Suc (dirtyCalls this)\<rparr>"

text \<open>
  Modelled from the spec: the setter that \<open>expandToProperty\<close> (in \<open>Misc/decorators\<close>, not
  among the sources) generates for a public member. The spec has "mutate-via-setters
  (each mutation triggers a dirty callback to the owning material)": the setter stores
  the value in the private member and calls the method named in the decorator, here
  always \<open>_markAllSubMeshesAsTexturesDirty\<close>. Whether assigning the value the member
  already holds counts is not said; \<open>notifyUnchanged\<close> leaves both readings open.
\<close>

definition expandedSet ::
  "bool \<Rightarrow> (PBRSubSurfaceConfiguration \<Rightarrow> 'v)
     \<Rightarrow> ('v \<Rightarrow> PBRSubSurfaceConfiguration \<Rightarrow> PBRSubSurfaceConfiguration)
     \<Rightarrow> 'v \<Rightarrow> PBRSubSurfaceConfiguration \<Rightarrow> PBRSubSurfaceConfiguration" where
  "expandedSet notifyUnchanged get put v this =
     (if get this = v \<and> \<not> notifyUnchanged then this
      else markAllSubMeshesAsTexturesDirty (put v this))"

text \<open>
  An assignment \<open>configuration.member = value\<close> from outside the class, one constructor
  for each public member the class declares. (\<open>isScatteringEnabled\<close> is commented out in
  the source.)
\<close>

datatype assignment =
  Set_isRefractionEnabled bool
  | Set_isTranslucencyEnabled bool
  | Set_refractionIntensity number
  | Set_translucencyIntensity number
  | Set_scatteringIntensity number
  | Set_thicknessTexture "BaseTexture option"
  | Set_refractionTexture "BaseTexture option"
  | Set_indexOfRefraction number
  | Set_invertRefractionY bool
  | Set_linkRefractionWithTransparency bool
  | Set_minimumThickness number
  | Set_maximumThickness number
  | Set_tintColor Color3
  | Set_tintColorAtDistance number
  | Set_diffusionDistance Color3
  | Set_useMaskFromThicknessTexture bool

text \<open>
  The members declared with \<open>@expandToProperty("_markAllSubMeshesAsTexturesDirty")\<close> go
  through the generated setter; the others are plain fields and the assignment is a store.
\<close>

fun assign ::
  "bool \<Rightarrow> assignment \<Rightarrow> PBRSubSurfaceConfiguration \<Rightarrow> PBRSubSurfaceConfiguration" where
  "assign n (Set_isRefractionEnabled v) this =
     expandedSet n priv_isRefractionEnabled (\<lambda>v c. c\<lparr>priv_isRefractionEnabled := v\<rparr>) v this"
| "assign n (Set_isTranslucencyEnabled v) this =
     expandedSet n priv_isTranslucencyEnabled (\<lambda>v c. c\<lparr>priv_isTranslucencyEnabled := v\<rparr>) v this"
| "assign n (Set_refractionIntensity v) this = this\<lparr>refractionIntensity := v\<rparr>"
| "assign n (Set_translucencyIntensity v) this = this\<lparr>translucencyIntensity := v\<rparr>"
| "assign n (Set_scatteringIntensity v) this = this\<lparr>scatteringIntensity := v\<rparr>"
| "assign n (Set_thicknessTexture v) this =
     expandedSet n priv_thicknessTexture (\<lambda>v c. c\<lparr>priv_thicknessTexture := v\<rparr>) v this"
| "assign n (Set_refractionTexture v) this =
     expandedSet n priv_refractionTexture (\<lambda>v c. c\<lparr>priv_refractionTexture := v\<rparr>) v this"
| "assign n (Set_indexOfRefraction v) this =
     expandedSet n priv_indexOfRefraction (\<lambda>v c. c\<lparr>priv_indexOfRefraction := v\<rparr>) v this"
| "assign n (Set_invertRefractionY v) this =
     expandedSet n priv_invertRefractionY (\<lambda>v c. c\<lparr>priv_invertRefractionY := v\<rparr>) v this"
| "assign n (Set_linkRefractionWithTransparency v) this =
     expandedSet n priv_linkRefractionWithTransparency
       (\<lambda>v c. c\<lparr>priv_linkRefractionWithTransparency := v\<rparr>) v this"
| "assign n (Set_minimumThickness v) this = this\<lparr>minimumThickness := v\<rparr>"
| "assign n (Set_maximumThickness v) this = this\<lparr>maximumThickness := v\<rparr>"
| "assign n (Set_tintColor v) this = this\<lparr>tintColor := v\<rparr>"
| "assign n (Set_tintColorAtDistance v) this = this\<lparr>tintColorAtDistance := v\<rparr>"
| "assign n (Set_diffusionDistance v) this = this\<lparr>diffusionDistance := v\<rparr>"
| "assign n (Set_useMaskFromThicknessTexture v) this =
     expandedSet n priv_useMaskFromThicknessTexture
       (\<lambda>v c. c\<lparr>priv_useMaskFromThicknessTexture := v\<rparr>) v this"

text \<open>Whether the member is one of the eight declared with \<open>expandToProperty\<close>.\<close>

fun expanded :: "assignment \<Rightarrow> bool" where
  "expanded (Set_isRefractionEnabled v) = True"
| "expanded (Set_isTranslucencyEnabled v) = True"
| "expanded (Set_thicknessTexture v) = True"
| "expanded (Set_refractionTexture v) = True"
| "expanded (Set_indexOfRefraction v) = True"
| "expanded (Set_invertRefractionY v) = True"
| "expanded (Set_linkRefractionWithTransparency v) = True"
| "expanded (Set_useMaskFromThicknessTexture v) = True"
| "expanded _ = False"

text \<open>Whether the assignment stores a value other than the one the member holds.\<close>

fun changes :: "assignment \<Rightarrow> PBRSubSurfaceConfiguration \<Rightarrow> bool" where
  "changes (Set_isRefractionEnabled v) this = (priv_isRefractionEnabled this \<noteq> v)"
| "changes (Set_isTranslucencyEnabled v) this = (priv_isTranslucencyEnabled this \<noteq> v)"
| "changes (Set_refractionIntensity v) this = (refractionIntensity this \<noteq> v)"
| "changes (Set_translucencyIntensity v) this = (translucencyIntensity this \<noteq> v)"
| "changes (Set_scatteringIntensity v) this = (scatteringIntensity this \<noteq> v)"
| "changes (Set_thicknessTexture v) this = (priv_thicknessTexture this \<noteq> v)"
| "changes (Set_refractionTexture v) this = (priv_refractionTexture this \<noteq> v)"
| "changes (Set_indexOfRefraction v) this = (priv_indexOfRefraction this \<noteq> v)"
| "changes (Set_invertRefractionY v) this = (priv_invertRefractionY this \<noteq> v)"
| "changes (Set_linkRefractionWithTransparency v) this =
     (priv_linkRefractionWithTransparency this \<noteq> v)"
| "changes (Set_minimumThickness v) this = (minimumThickness this \<noteq> v)"
| "changes (Set_maximumThickness v) this = (maximumThickness this \<noteq> v)"
| "changes (Set_tintColor v) this = (tintColor this \<noteq> v)"
| "changes (Set_tintColorAtDistance v) this = (tintColorAtDistance this \<noteq> v)"
| "changes (Set_diffusionDistance v) this = (diffusionDistance this \<noteq> v)"
| "changes (Set_useMaskFromThicknessTexture v) this =
     (priv_useMaskFromThicknessTexture this \<noteq> v)"

section \<open>Concrete objects\<close>

text \<open>
  The state after the constructor: the field initialisers of the class, with
  \<open>Color3.White()\<close> as the colour (1, 1, 1), and no call of the callback yet.
\<close>

definition White :: Color3 where
  "White = \<lparr>r = 1, g = 1, b = 1\<rparr>"

definition newConfiguration :: PBRSubSurfaceConfiguration where
  "newConfiguration =
     \<lparr>priv_isRefractionEnabled = False,
      priv_isTranslucencyEnabled = False,
      priv_isScatteringEnabled = False,
      refractionIntensity = 1,
      translucencyIntensity = 1,
      scatteringIntensity = 1,
      priv_thicknessTexture = None,
      priv_refractionTexture = None,
      priv_indexOfRefraction = 1,
      priv_invertRefractionY = False,
      priv_linkRefractionWithTransparency = False,
      minimumThickness = 0,
      maximumThickness = 1,
      tintColor = White,
      tintColorAtDistance = 1,
      diffusionDistance = White,
      priv_useMaskFromThicknessTexture = False,
      dirtyCalls = 0\<rparr>"

text \<open>
  Two textures: a cube map that is a render target and is not ready yet, and a plain
  texture that is ready.
\<close>

definition cubeTexture :: BaseTexture where
  "cubeTexture =
     BaseTexture 1 False True False False False False True 0 1 None [] 256 (4 / 5) 0
       None None None"

definition planeTexture :: BaseTexture where
  "planeTexture =
     BaseTexture 2 True False True False False False False 0 1 None [] 512 (4 / 5) 0
       None None None"

definition allFlags :: MaterialFlags where
  "allFlags = \<lparr>ThicknessTextureEnabled = True, RefractionTextureEnabled = True\<rparr>"

definition dirtyDefines :: IMaterialSubSurfaceDefines where
  "dirtyDefines =
     \<lparr>SUBSURFACE = False, SS_REFRACTION = False, SS_TRANSLUCENCY = False,
      SS_SCATERRING = False, SS_THICKNESSANDMASK_TEXTURE = False,
      SS_THICKNESSANDMASK_TEXTUREDIRECTUV = 0, SS_REFRACTIONMAP_3D = False,
      SS_REFRACTIONMAP_OPPOSITEZ = False, SS_LODINREFRACTIONALPHA = False,
      SS_GAMMAREFRACTION = False, SS_RGBDREFRACTION = False,
      SS_LINKREFRACTIONTOTRANSPARENCY = False, SS_MASK_FROM_THICKNESS_TEXTURE = False,
      areTexturesDirty = True\<rparr>"

text \<open>Scenes with textures enabled and the given environment texture.\<close>

definition sceneWith :: "BaseTexture option \<Rightarrow> Scene" where
  "sceneWith texture = \<lparr>texturesEnabled = True, environmentTexture = texture\<rparr>"

text \<open>
  Stand-ins for the two helpers of \<open>MaterialHelper\<close>, used where a statement is tried on
  concrete objects: one writes the two defines named after the key, the other uploads
  the matrix named after the key.
\<close>

definition mergedUVStandIn :: "unit PrepareDefinesForMergedUV" where
  "mergedUVStandIn texture defines key =
     defines\<lparr>SS_THICKNESSANDMASK_TEXTURE := True,
             SS_THICKNESSANDMASK_TEXTUREDIRECTUV := coordinatesIndex texture + 1\<rparr>"

definition textureMatrixStandIn :: "unit BindTextureMatrix" where
  "textureMatrixStandIn texture uniformBuffer key =
     updateUniform (key @ ''Matrix'') (MatrixValue []) uniformBuffer"

definition frozenBuffer :: UniformBuffer where
  "frozenBuffer = \<lparr>useUbo = True, isSync = True, uniformUpdates = [], textureBindings = []\<rparr>"

text \<open>An effect whose refraction sampler is bound.\<close>

definition boundEffect :: Effect where
  "boundEffect =
     \<lparr>samplers = (\<lambda>name. if name = ''refractionSampler'' then Some cubeTexture else None)\<rparr>"

text \<open>
  A configuration with refraction enabled and no texture of its own, and one with
  translucency enabled, a thickness texture and a render target as refraction texture.
\<close>

definition refractingConfiguration :: PBRSubSurfaceConfiguration where
  "refractingConfiguration = newConfiguration\<lparr>priv_isRefractionEnabled := True\<rparr>"

definition texturedConfiguration :: PBRSubSurfaceConfiguration where
  "texturedConfiguration =
     newConfiguration\<lparr>priv_isTranslucencyEnabled := True,
                       priv_thicknessTexture := Some planeTexture,
                       priv_refractionTexture := Some cubeTexture\<rparr>"

text \<open>A scene with more members than the two that are read.\<close>

definition namedScene :: "string \<Rightarrow> string Scene_scheme" where
  "namedScene name =
     \<lparr>texturesEnabled = True, environmentTexture = Some planeTexture, \<dots> = name\<rparr>"

section \<open>The fallback to the environment texture\<close>

text \<open>
  C2. \<open>_getRefractionTexture\<close> returns the refraction texture of the configuration when
  there is one; when there is none it returns the environment texture of the scene if
  refraction is enabled, and \<open>null\<close> if it is not.
\<close>

theorem getRefractionTexture_fallback:
  "(priv_refractionTexture this = Some texture
      \<longrightarrow> getRefractionTexture this scene = Some texture)
   \<and> (priv_refractionTexture this = None \<and> priv_isRefractionEnabled this
      \<longrightarrow> getRefractionTexture this scene = environmentTexture scene)
   \<and> (priv_refractionTexture this = None \<and> \<not> priv_isRefractionEnabled this
      \<longrightarrow> getRefractionTexture this scene = None)"
  by (simp add: getRefractionTexture_def)

text \<open>
  The three cases on concrete objects: an own texture wins over the environment, the
  environment is used once refraction is enabled, and is not used otherwise.
\<close>

theorem getRefractionTexture_fallback_witness:
  "getRefractionTexture (newConfiguration\<lparr>priv_refractionTexture := Some planeTexture\<rparr>)
       (sceneWith (Some cubeTexture)) = Some planeTexture
   \<and> getRefractionTexture (newConfiguration\<lparr>priv_isRefractionEnabled := True\<rparr>)
       (sceneWith (Some cubeTexture)) = Some cubeTexture
   \<and> getRefractionTexture newConfiguration (sceneWith (Some cubeTexture)) = None"
  using getRefractionTexture_fallback
          [of "newConfiguration\<lparr>priv_refractionTexture := Some planeTexture\<rparr>" planeTexture
              "sceneWith (Some cubeTexture)"]
        getRefractionTexture_fallback
          [of "newConfiguration\<lparr>priv_isRefractionEnabled := True\<rparr>" planeTexture
              "sceneWith (Some cubeTexture)"]
        getRefractionTexture_fallback
          [of newConfiguration planeTexture "sceneWith (Some cubeTexture)"]
  by (simp add: newConfiguration_def sceneWith_def)

section \<open>Alpha blending\<close>

text \<open>
  C10. \<open>disableAlphaBlending\<close> is true exactly when the property \<open>isRefractionEnabled\<close>
  and the property \<open>linkRefractionWithTransparency\<close> are both true, in every state of the
  configuration.
\<close>

theorem disableAlphaBlending_iff:
  "disableAlphaBlending this \<longleftrightarrow>
     isRefractionEnabled this \<and> linkRefractionWithTransparency this"
  by (simp add: disableAlphaBlending_def linkRefractionWithTransparency_def)

section \<open>Readiness\<close>

text \<open>
  C5. \<open>isReadyForSubMesh\<close> returns false exactly when the textures are dirty, the scene
  has textures enabled, and either the thickness texture is set, enabled in
  \<open>MaterialFlags\<close> and not ready, or the refraction texture found through the fallback is
  there, enabled in \<open>MaterialFlags\<close> and not ready. The function is total and two-valued:
  everywhere else the result is true, and there is no other outcome.
\<close>

theorem isReadyForSubMesh_false_iff:
  "isReadyForSubMesh flags this defines scene = False \<longleftrightarrow>
     areTexturesDirty defines \<and> texturesEnabled scene
     \<and> ((\<exists>texture. priv_thicknessTexture this = Some texture
            \<and> ThicknessTextureEnabled flags \<and> \<not> isReadyOrNotBlocking texture)
        \<or> (\<exists>texture. getRefractionTexture this scene = Some texture
            \<and> RefractionTextureEnabled flags \<and> \<not> isReadyOrNotBlocking texture))"
  by (auto simp add: isReadyForSubMesh_def split: option.splits)

text \<open>
  With refraction enabled and no texture of its own, the configuration waits for an
  environment texture that is not ready, and is ready with one that is.
\<close>

theorem isReadyForSubMesh_false_iff_witness:
  "isReadyForSubMesh allFlags refractingConfiguration dirtyDefines
       (sceneWith (Some cubeTexture)) = False
   \<and> isReadyForSubMesh allFlags refractingConfiguration dirtyDefines
       (sceneWith (Some planeTexture)) = True"
  using isReadyForSubMesh_false_iff
          [of allFlags refractingConfiguration dirtyDefines "sceneWith (Some cubeTexture)"]
        isReadyForSubMesh_false_iff
          [of allFlags refractingConfiguration dirtyDefines "sceneWith (Some planeTexture)"]
  by (simp add: allFlags_def refractingConfiguration_def newConfiguration_def
        dirtyDefines_def sceneWith_def getRefractionTexture_def cubeTexture_def
        planeTexture_def)

section \<open>The defines derived from the enable flags\<close>

text \<open>
  C1. When \<open>defines._areTexturesDirty\<close> is true, \<open>prepareDefines\<close> leaves \<open>SUBSURFACE\<close>
  true exactly when one of \<open>_isRefractionEnabled\<close>, \<open>_isTranslucencyEnabled\<close>,
  \<open>_isScatteringEnabled\<close> is true, and leaves \<open>SS_TRANSLUCENCY\<close> and \<open>SS_SCATERRING\<close> equal
  to their flags, whatever the three flags are. The helper
  \<open>PrepareDefinesForMergedUV\<close> runs after the three writes; it is assumed not to
  overwrite them.
\<close>

theorem prepareDefines_enable_flags:
  assumes "keepsEnableDefines PrepareDefinesForMergedUV"
    and "areTexturesDirty defines"
  shows "SUBSURFACE (snd (prepareDefines PrepareDefinesForMergedUV flags this defines scene))
           = (priv_isRefractionEnabled this \<or> priv_isTranslucencyEnabled this
              \<or> priv_isScatteringEnabled this)
         \<and> SS_TRANSLUCENCY
             (snd (prepareDefines PrepareDefinesForMergedUV flags this defines scene))
           = priv_isTranslucencyEnabled this
         \<and> SS_SCATERRING
             (snd (prepareDefines PrepareDefinesForMergedUV flags this defines scene))
           = priv_isScatteringEnabled this"
  using assms
  by (auto simp add: prepareDefines_def keepsEnableDefines_def Let_def split: option.splits)

text \<open>
  A run in which the helper is called: translucency is enabled, the thickness texture is
  set and enabled, the scene has textures enabled.
\<close>

theorem prepareDefines_enable_flags_witness:
  "keepsEnableDefines mergedUVStandIn \<and> areTexturesDirty dirtyDefines
   \<and> SUBSURFACE
       (snd (prepareDefines mergedUVStandIn allFlags texturedConfiguration dirtyDefines
               (sceneWith None)))
   \<and> SS_TRANSLUCENCY
       (snd (prepareDefines mergedUVStandIn allFlags texturedConfiguration dirtyDefines
               (sceneWith None)))
   \<and> \<not> SS_SCATERRING
       (snd (prepareDefines mergedUVStandIn allFlags texturedConfiguration dirtyDefines
               (sceneWith None)))"
proof -
  have keeps: "keepsEnableDefines mergedUVStandIn"
    by (simp add: keepsEnableDefines_def mergedUVStandIn_def)
  have dirty: "areTexturesDirty dirtyDefines"
    by (simp add: dirtyDefines_def)
  show ?thesis
    using keeps dirty
      prepareDefines_enable_flags [OF keeps dirty, of allFlags texturedConfiguration
        "sceneWith None"]
    by (simp add: texturedConfiguration_def newConfiguration_def)
qed

section \<open>What the defines depend on\<close>

text \<open>
  C6, as stated: two runs of \<open>prepareDefines\<close> from the same configuration, the same
  capability flags and the same defines give the same defines. This fails: with
  refraction enabled and no refraction texture of its own, the configuration takes the
  environment texture of the scene, and a cube map and a plain texture give different
  values of \<open>SS_REFRACTIONMAP_3D\<close>, in two scenes that both have textures enabled.
\<close>

theorem prepareDefines_environment_counterexample:
  "\<not> (texturesEnabled (sceneWith (Some cubeTexture))
        = texturesEnabled (sceneWith (Some planeTexture))
      \<longrightarrow> snd (prepareDefines mergedUVStandIn allFlags refractingConfiguration dirtyDefines
                 (sceneWith (Some cubeTexture)))
          = snd (prepareDefines mergedUVStandIn allFlags refractingConfiguration dirtyDefines
                   (sceneWith (Some planeTexture))))"
proof -
  have "SS_REFRACTIONMAP_3D
          (snd (prepareDefines mergedUVStandIn allFlags refractingConfiguration dirtyDefines
                  (sceneWith (Some cubeTexture))))"
    by (simp add: prepareDefines_def Let_def allFlags_def refractingConfiguration_def
          newConfiguration_def dirtyDefines_def sceneWith_def getRefractionTexture_def
          cubeTexture_def)
  moreover have "\<not> SS_REFRACTIONMAP_3D
          (snd (prepareDefines mergedUVStandIn allFlags refractingConfiguration dirtyDefines
                  (sceneWith (Some planeTexture))))"
    by (simp add: prepareDefines_def Let_def allFlags_def refractingConfiguration_def
          newConfiguration_def dirtyDefines_def sceneWith_def getRefractionTexture_def
          planeTexture_def)
  ultimately have
    "snd (prepareDefines mergedUVStandIn allFlags refractingConfiguration dirtyDefines
            (sceneWith (Some cubeTexture)))
     \<noteq> snd (prepareDefines mergedUVStandIn allFlags refractingConfiguration dirtyDefines
              (sceneWith (Some planeTexture)))"
    by metis
  then show ?thesis
    by (simp add: sceneWith_def)
qed

text \<open>
  C6, amended: two runs of \<open>prepareDefines\<close> from the same configuration, the same
  \<open>MaterialFlags\<close>, the same defines, and scenes with the same \<open>texturesEnabled\<close> and the
  same environment texture give the same defines, and a run returns the configuration it
  was given. Nothing else of the scene is read.
\<close>

theorem prepareDefines_deterministic:
  assumes "this1 = this2"
    and "flags1 = flags2"
    and "defines1 = defines2"
    and "texturesEnabled scene1 = texturesEnabled scene2"
    and "environmentTexture scene1 = environmentTexture scene2"
  shows "snd (prepareDefines PrepareDefinesForMergedUV flags1 this1 defines1 scene1)
           = snd (prepareDefines PrepareDefinesForMergedUV flags2 this2 defines2 scene2)
         \<and> fst (prepareDefines PrepareDefinesForMergedUV flags1 this1 defines1 scene1) = this1
         \<and> fst (prepareDefines PrepareDefinesForMergedUV flags2 this2 defines2 scene2) = this2"
proof -
  have texture: "getRefractionTexture this2 scene1 = getRefractionTexture this2 scene2"
    using assms(5) by (simp add: getRefractionTexture_def)
  have "prepareDefines PrepareDefinesForMergedUV flags2 this2 defines2 scene1
          = prepareDefines PrepareDefinesForMergedUV flags2 this2 defines2 scene2"
    unfolding prepareDefines_def texture assms(4) by (rule refl)
  then have same: "prepareDefines PrepareDefinesForMergedUV flags1 this1 defines1 scene1
                = prepareDefines PrepareDefinesForMergedUV flags2 this2 defines2 scene2"
    using assms(1,2,3) by simp
  have first: "fst (prepareDefines PrepareDefinesForMergedUV flags1 this1 defines1 scene1) = this1"
    by (simp add: prepareDefines_def Let_def)
  have second: "fst (prepareDefines PrepareDefinesForMergedUV flags2 this2 defines2 scene2) = this2"
    by (simp add: prepareDefines_def Let_def)
  show ?thesis
    using same first second by simp
qed

text \<open>Two scenes that differ, but not in what is read.\<close>

theorem prepareDefines_deterministic_witness:
  "texturesEnabled (namedScene ''first'') = texturesEnabled (namedScene ''second'')
   \<and> environmentTexture (namedScene ''first'') = environmentTexture (namedScene ''second'')
   \<and> namedScene ''first'' \<noteq> namedScene ''second''
   \<and> snd (prepareDefines mergedUVStandIn allFlags refractingConfiguration dirtyDefines
            (namedScene ''first''))
     = snd (prepareDefines mergedUVStandIn allFlags refractingConfiguration dirtyDefines
              (namedScene ''second''))
   \<and> fst (prepareDefines mergedUVStandIn allFlags refractingConfiguration dirtyDefines
            (namedScene ''first'')) = refractingConfiguration"
proof -
  have flag: "texturesEnabled (namedScene ''first'') = texturesEnabled (namedScene ''second'')"
    by (simp add: namedScene_def)
  have env: "environmentTexture (namedScene ''first'')
               = environmentTexture (namedScene ''second'')"
    by (simp add: namedScene_def)
  have differ: "namedScene ''first'' \<noteq> namedScene ''second''"
    by (simp add: namedScene_def)
  show ?thesis
    using flag env differ
      prepareDefines_deterministic [OF refl refl refl flag env, of mergedUVStandIn allFlags
        refractingConfiguration dirtyDefines]
    by simp
qed

section \<open>The gate in front of the uniform uploads\<close>

text \<open>
  C7. When \<open>uniformBuffer.useUbo\<close>, \<open>isFrozen\<close> and \<open>uniformBuffer.isSync\<close> are all true,
  \<open>bindForSubMesh\<close> makes no \<open>update...\<close> call: the uniform buffer it leaves behind is the
  one it was given, but for \<open>setTexture\<close> calls. So a uniform is written only when one of
  the three is false.
\<close>

theorem bindForSubMesh_frozen_gate:
  assumes "useUbo uniformBuffer"
    and "isFrozen"
    and "isSync uniformBuffer"
  shows "uniformUpdates
           (bindForSubMesh BindTextureMatrix flags this uniformBuffer scene isFrozen
              lodBasedMicrosurface)
           = uniformUpdates uniformBuffer
         \<and> bindForSubMesh BindTextureMatrix flags this uniformBuffer scene isFrozen
              lodBasedMicrosurface
           = uniformBuffer
               \<lparr>textureBindings :=
                  textureBindings
                    (bindForSubMesh BindTextureMatrix flags this uniformBuffer scene isFrozen
                       lodBasedMicrosurface)\<rparr>"
  using assms
  by (simp add: bindForSubMesh_def bindTextures_def setTexture_def Let_def
        split: option.splits)

text \<open>
  A frozen, synchronised buffer and a configuration with both textures: the samplers
  are bound, nothing is uploaded.
\<close>

theorem bindForSubMesh_frozen_gate_witness:
  "useUbo frozenBuffer \<and> isSync frozenBuffer
   \<and> uniformUpdates
       (bindForSubMesh textureMatrixStandIn allFlags texturedConfiguration frozenBuffer
          (sceneWith None) True True) = []
   \<and> textureBindings
       (bindForSubMesh textureMatrixStandIn allFlags texturedConfiguration frozenBuffer
          (sceneWith None) True True)
     = [(''thicknessSampler'', planeTexture), (''refractionSampler'', cubeTexture)]"
proof -
  have ubo: "useUbo frozenBuffer" and sync: "isSync frozenBuffer"
    by (simp_all add: frozenBuffer_def)
  have bound: "textureBindings
       (bindForSubMesh textureMatrixStandIn allFlags texturedConfiguration frozenBuffer
          (sceneWith None) True True)
     = [(''thicknessSampler'', planeTexture), (''refractionSampler'', cubeTexture)]"
    by (simp add: bindForSubMesh_def bindTextures_def setTexture_def Let_def
          getRefractionTexture_def texturedConfiguration_def newConfiguration_def
          frozenBuffer_def sceneWith_def allFlags_def)
  show ?thesis
    using ubo sync bound
      bindForSubMesh_frozen_gate [OF ubo TrueI sync, of textureMatrixStandIn allFlags
        texturedConfiguration "sceneWith None" True]
    by (simp add: frozenBuffer_def)
qed

text \<open>The same call on a material that is not frozen makes the uploads.\<close>

lemma bindForSubMesh_open_gate_example:
  "map fst (uniformUpdates
       (bindForSubMesh textureMatrixStandIn allFlags texturedConfiguration frozenBuffer
          (sceneWith None) False True))
   = [''vThicknessInfos'', ''thicknessMatrix'', ''vThicknessParam'', ''refractionMatrix'',
      ''vRefractionInfos'', ''vRefractionMicrosurfaceInfos'', ''vDiffusionDistance'',
      ''vTintColor'', ''vSubSurfaceIntensity'']"
  by (simp add: bindForSubMesh_def bindTextures_def bindUniforms_def setTexture_def
        updateUniform_def textureMatrixStandIn_def Let_def
        getRefractionTexture_def texturedConfiguration_def newConfiguration_def
        frozenBuffer_def sceneWith_def allFlags_def)

section \<open>Disposal of the textures\<close>

text \<open>
  C8. \<open>dispose\<close> calls \<open>dispose()\<close> on a texture exactly when \<open>forceDisposeTextures\<close> is
  true and the texture is the thickness or the refraction texture of the configuration.
  When the argument is false or left out no texture is disposed, and in every case the
  configuration, with its two texture references, is as before.
\<close>

theorem dispose_only_when_forced:
  "(texture \<in> set (snd (dispose this forceDisposeTextures)) \<longleftrightarrow>
      forceDisposeTextures = Some True
      \<and> (priv_thicknessTexture this = Some texture
         \<or> priv_refractionTexture this = Some texture))
   \<and> (forceDisposeTextures \<noteq> Some True \<longrightarrow> snd (dispose this forceDisposeTextures) = [])
   \<and> fst (dispose this forceDisposeTextures) = this"
  by (auto simp add: dispose_def split: option.splits)

text \<open>Forced, not forced, and without the argument, on a configuration with both textures.\<close>

theorem dispose_only_when_forced_witness:
  "snd (dispose texturedConfiguration (Some True)) = [planeTexture, cubeTexture]
   \<and> snd (dispose texturedConfiguration (Some False)) = []
   \<and> snd (dispose texturedConfiguration None) = []
   \<and> fst (dispose texturedConfiguration None) = texturedConfiguration"
proof -
  have forced: "snd (dispose texturedConfiguration (Some True)) = [planeTexture, cubeTexture]"
    by (simp add: dispose_def texturedConfiguration_def newConfiguration_def)
  show ?thesis
    using forced
      dispose_only_when_forced [of planeTexture texturedConfiguration "Some False"]
      dispose_only_when_forced [of planeTexture texturedConfiguration None]
    by simp
qed

section \<open>Unbinding\<close>

text \<open>
  C9. \<open>unbind\<close> returns true exactly when \<open>_refractionTexture\<close> is set and is a render
  target; then the effect has \<open>null\<close> under \<open>refractionSampler\<close> and is otherwise as
  before. When it returns false the effect is unchanged. The environment texture plays
  no part: the function does not see the scene.
\<close>

theorem unbind_render_target:
  "(fst (unbind this activeEffect) \<longleftrightarrow>
      (\<exists>texture. priv_refractionTexture this = Some texture \<and> isRenderTarget texture))
   \<and> (fst (unbind this activeEffect) \<longrightarrow>
        snd (unbind this activeEffect)
          = activeEffect\<lparr>samplers := (samplers activeEffect)(''refractionSampler'' := None)\<rparr>)
   \<and> (\<not> fst (unbind this activeEffect) \<longrightarrow> snd (unbind this activeEffect) = activeEffect)"
  by (auto simp add: unbind_def split: option.splits)

text \<open>
  A render target as refraction texture is unbound; a configuration that refracts the
  environment only is not.
\<close>

theorem unbind_render_target_witness:
  "fst (unbind texturedConfiguration boundEffect)
   \<and> samplers (snd (unbind texturedConfiguration boundEffect)) ''refractionSampler'' = None
   \<and> \<not> fst (unbind refractingConfiguration boundEffect)
   \<and> snd (unbind refractingConfiguration boundEffect) = boundEffect"
  using unbind_render_target [of texturedConfiguration boundEffect]
        unbind_render_target [of refractingConfiguration boundEffect]
  by (simp add: texturedConfiguration_def refractingConfiguration_def newConfiguration_def
        cubeTexture_def)

section \<open>The dirty callback\<close>

text \<open>
  C4, as stated: every assignment to a public member calls the dirty callback once,
  also for \<open>refractionIntensity\<close>, \<open>translucencyIntensity\<close>, \<open>scatteringIntensity\<close>,
  \<open>minimumThickness\<close>, \<open>maximumThickness\<close>, \<open>tintColor\<close>, \<open>tintColorAtDistance\<close> and
  \<open>diffusionDistance\<close>. These eight are declared without \<open>expandToProperty\<close>: they are
  plain fields, and an assignment that changes them calls nothing, even under the
  reading of the generated setters that notifies most.
\<close>

theorem assign_plain_field_counterexample:
  "dirtyCalls (assign True (Set_refractionIntensity 2) newConfiguration)
     \<noteq> dirtyCalls newConfiguration + 1
   \<and> dirtyCalls (assign True (Set_translucencyIntensity 2) newConfiguration)
     \<noteq> dirtyCalls newConfiguration + 1
   \<and> dirtyCalls (assign True (Set_scatteringIntensity 2) newConfiguration)
     \<noteq> dirtyCalls newConfiguration + 1
   \<and> dirtyCalls (assign True (Set_minimumThickness 2) newConfiguration)
     \<noteq> dirtyCalls newConfiguration + 1
   \<and> dirtyCalls (assign True (Set_maximumThickness 2) newConfiguration)
     \<noteq> dirtyCalls newConfiguration + 1
   \<and> dirtyCalls (assign True (Set_tintColor \<lparr>r = 1, g = 0, b = 0\<rparr>) newConfiguration)
     \<noteq> dirtyCalls newConfiguration + 1
   \<and> dirtyCalls (assign True (Set_tintColorAtDistance 2) newConfiguration)
     \<noteq> dirtyCalls newConfiguration + 1
   \<and> dirtyCalls (assign True (Set_diffusionDistance \<lparr>r = 1, g = 0, b = 0\<rparr>) newConfiguration)
     \<noteq> dirtyCalls newConfiguration + 1"
  by simp

text \<open>
  C4, amended: an assignment that changes the value of one of the eight members declared
  with \<open>expandToProperty\<close> (\<open>isRefractionEnabled\<close>, \<open>isTranslucencyEnabled\<close>,
  \<open>thicknessTexture\<close>, \<open>refractionTexture\<close>, \<open>indexOfRefraction\<close>, \<open>invertRefractionY\<close>,
  \<open>linkRefractionWithTransparency\<close>, \<open>useMaskFromThicknessTexture\<close>) calls the dirty
  callback exactly once; an assignment to one of the other eight public members calls
  it not at all.
\<close>

theorem assign_dirty_calls:
  "(expanded a \<and> changes a this
      \<longrightarrow> dirtyCalls (assign notifyUnchanged a this) = dirtyCalls this + 1)
   \<and> (\<not> expanded a \<longrightarrow> dirtyCalls (assign notifyUnchanged a this) = dirtyCalls this)"
  by (cases a) (simp_all add: expandedSet_def markAllSubMeshesAsTexturesDirty_def)

text \<open>Two expanded members and one plain field, assigned on a new configuration.\<close>

theorem assign_dirty_calls_witness:
  "dirtyCalls (assign False (Set_isRefractionEnabled True) newConfiguration) = 1
   \<and> dirtyCalls (assign True (Set_refractionTexture (Some cubeTexture)) newConfiguration) = 1
   \<and> dirtyCalls (assign True (Set_tintColorAtDistance 2) newConfiguration) = 0"
  using assign_dirty_calls [of "Set_isRefractionEnabled True" newConfiguration False]
        assign_dirty_calls [of "Set_refractionTexture (Some cubeTexture)" newConfiguration True]
        assign_dirty_calls [of "Set_tintColorAtDistance 2" newConfiguration True]
  by (simp add: newConfiguration_def)

end
